theory Spec2Isabelle
  imports Main "HOL-Library.Word"
begin

section \<open>The InfluxDB datastore of coriolis-logger\<close>

text \<open>
  A shallow embedding of \<^verbatim>\<open>datastore/influxdb/influxdb.go\<close>: the buffered writer
  (\<^verbatim>\<open>flush\<close>, \<^verbatim>\<open>Write\<close>, \<^verbatim>\<open>doWork\<close>, \<^verbatim>\<open>Wait\<close>, \<^verbatim>\<open>Rotate\<close>) and the query reader
  (\<^verbatim>\<open>prepareQuery\<close>, \<^verbatim>\<open>ReadNext\<close>). The InfluxDB client library is not part of the
  repository; its calls are parameters of the model (record \<open>env\<close>), so every theorem
  holds for every behaviour of the backend.
\<close>

subsection \<open>Errors\<close>

text \<open>
  Go error values: the sentinel \<^verbatim>\<open>io.EOF\<close>, an error made from a message (\<^verbatim>\<open>fmt.Errorf\<close>,
  or any error of the client library), and \<^verbatim>\<open>errors.Wrap(err, msg)\<close> of
  \<^verbatim>\<open>github.com/pkg/errors\<close>, whose \<^verbatim>\<open>Error()\<close> is \<^verbatim>\<open>msg + ": " + err.Error()\<close>.
\<close>

datatype error = EOF | ErrorString string | Wrap error string

fun err_Error :: "error \<Rightarrow> string" where
  "err_Error EOF = ''EOF''"
| "err_Error (ErrorString m) = m"
| "err_Error (Wrap e m) = m @ '': '' @ err_Error e"

text \<open>
  What running a piece of code to its end, in one goroutine, can come to: it parks on a
  mutex, a channel or a select with no ready case (\<open>Blocks\<close>), the runtime stops the
  process (\<open>Fatal\<close>: a panic or a fatal error), or it completes with a value.
\<close>

datatype 'a exec = Blocks | Fatal string | Done 'a

definition and_then :: "'a exec \<Rightarrow> ('a \<Rightarrow> 'b exec) \<Rightarrow> 'b exec" where
  "and_then m f = (case m of Blocks \<Rightarrow> Blocks | Fatal e \<Rightarrow> Fatal e | Done x \<Rightarrow> f x)"

subsection \<open>Time\<close>

text \<open>
  A \<^verbatim>\<open>time.Time\<close> is an instant, counted in nanoseconds from January 1, year 1, 00:00:00
  UTC, the instant of the zero value \<^verbatim>\<open>time.Time{}\<close>. \<^verbatim>\<open>UnixNano()\<close> is the count from
  1970 as an \<^verbatim>\<open>int64\<close>, computed with wrap-around (year 1 is 62135596800 seconds before
  1970).
\<close>

type_synonym Time = int

definition zero_Time :: Time where
  "zero_Time = 0"

definition UnixNano :: "Time \<Rightarrow> int" where
  "UnixNano t = sint (word_of_int (t - 62135596800 * 1000000000) :: 64 word)"

subsection \<open>Formatting\<close>

definition digit :: "int \<Rightarrow> char" where
  "digit d = ''0123456789'' ! nat d"

function decimal :: "int \<Rightarrow> string" where
  "decimal n = (if n < 10 then [digit n] else decimal (n div 10) @ [digit (n mod 10)])"
  by pat_completeness auto
termination
  by (relation "measure nat") auto

declare decimal.simps [simp del]

text \<open>The verb \<^verbatim>\<open>%d\<close> of \<^verbatim>\<open>fmt.Sprintf\<close> on an integer.\<close>

definition Sprintf_d :: "int \<Rightarrow> string" where
  "Sprintf_d n = (if n < 0 then ''-'' @ decimal (- n) else decimal n)"

text \<open>\<^verbatim>\<open>strings.Join\<close>.\<close>

fun Join :: "string list \<Rightarrow> string \<Rightarrow> string" where
  "Join [] sep = []"
| "Join [x] sep = x"
| "Join (x # y # ys) sep = x @ sep @ Join (y # ys) sep"

definition quote :: char where
  "quote = CHR 0x27"

definition newline :: char where
  "newline = CHR 0x0A"

subsection \<open>Messages, query parameters and configuration\<close>

text \<open>
  Modelled from the spec: the declarations of \<^verbatim>\<open>params.QueryParams\<close>,
  \<^verbatim>\<open>logging.LogMessage\<close> and \<^verbatim>\<open>config.InfluxDB\<close> are not among the sources. The fields
  are the ones \<^verbatim>\<open>influxdb.go\<close> reads; the dialect tag has the two dialects of the
  listener; severity and facility are enumerations over integers whose \<^verbatim>\<open>String()\<close>
  methods are parameters of the model.
\<close>

record QueryParams =
  BinaryName :: string
  Hostname :: string
  StartDate :: Time
  EndDate :: Time
  Severity :: int

datatype RFCType = RFC3164 | RFC5424

record LogMessage =
  Timestamp :: Time
  Hostname :: string
  Severity :: int
  Facility :: int
  BinaryName :: string
  Message :: string
  RFC :: RFCType

record InfluxDB =
  Database :: string
  WriteInterval :: int

subsection \<open>The client library\<close>

text \<open>
  A point as \<^verbatim>\<open>client.NewPoint(name, tags, fields, t)\<close> builds it, a batch as
  \<^verbatim>\<open>client.NewBatchPoints\<close> and \<^verbatim>\<open>AddPoint\<close> build it, a query as \<^verbatim>\<open>client.NewQuery\<close>
  builds it, and the part of a chunked response that \<^verbatim>\<open>ReadNext\<close> reads. A value of a
  row is an \<^verbatim>\<open>interface{}\<close>: a string or something else.
\<close>

record Point =
  pt_name :: string
  pt_tags :: "string \<rightharpoonup> string"
  pt_fields :: "string \<rightharpoonup> string"
  pt_time :: Time

record BatchPoints =
  bp_Database :: string
  bp_Precision :: string
  bp_Points :: "Point list"

record Query =
  q_Command :: string
  q_Database :: string
  q_Precision :: string
  q_ChunkSize :: int

datatype ival = VString string | VNil | VNumber int | VBool bool

record Row =
  Values :: "ival list list"

record Result =
  Series :: "Row list"

record Response =
  Results :: "Result list"

text \<open>
  The calls into the library and into the \<^verbatim>\<open>logging\<close> package. \<open>'c\<close> is the state
  behind the connection \<^verbatim>\<open>i.con\<close>, \<open>'r\<close> the state of a \<^verbatim>\<open>*client.ChunkedResponse\<close>.
  \<open>NewPoint\<close> and \<open>NewBatchPoints\<close> give the error the library returns, if any (the
  arguments of \<open>NewBatchPoints\<close> are the database and the precision of its
  configuration); \<open>con_Write\<close> is \<^verbatim>\<open>i.con.Write(bp)\<close>, \<open>QueryAsChunk\<close> is
  \<^verbatim>\<open>i.con.QueryAsChunk(q)\<close> and \<open>NextResponse\<close> is \<^verbatim>\<open>resp.NextResponse()\<close>.
\<close>

record ('c, 'r) env =
  NewPoint :: "string \<Rightarrow> (string \<rightharpoonup> string) \<Rightarrow> (string \<rightharpoonup> string) \<Rightarrow> Time \<Rightarrow> error option"
  NewBatchPoints :: "string \<Rightarrow> string \<Rightarrow> error option"
  con_Write :: "BatchPoints \<Rightarrow> 'c \<Rightarrow> error option \<times> 'c"
  QueryAsChunk :: "Query \<Rightarrow> 'c \<Rightarrow> (error + 'r) \<times> 'c"
  NextResponse :: "'r \<Rightarrow> (error + Response) \<times> 'r"
  Severity_String :: "int \<Rightarrow> string"
  Facility_String :: "int \<Rightarrow> string"

subsection \<open>The datastore\<close>

text \<open>
  The struct \<^verbatim>\<open>InfluxDBDataStore\<close>. \<open>mut\<close> is the mutex (\<open>True\<close>: locked). \<open>ctx\<close> and
  the channels \<open>closed\<close> and \<open>quit\<close> carry no value: the field says whether the channel
  is closed (for \<open>ctx\<close>, whether the context is cancelled). \<open>flushNow\<close> and \<open>flushed\<close>
  are channels of capacity 10 on which only the value 1 is sent: the field is the
  number of values buffered. \<open>logged\<close> is not a field of the struct: it is the output
  of the package's logger \<^verbatim>\<open>log\<close>, one line per call of \<^verbatim>\<open>log.Errorf\<close>.
\<close>

record 'c InfluxDBDataStore =
  cfg :: InfluxDB
  con :: 'c
  mut :: bool
  points :: "Point list"
  ctx :: bool
  closed :: bool
  quit :: bool
  flushNow :: nat
  flushed :: nat
  logged :: "string list"

text \<open>
  \<^verbatim>\<open>NewInfluxDBDatastore\<close>, for a configuration that validates and a connection \<open>c\<close>
  that \<^verbatim>\<open>connect\<close> obtained.
\<close>

definition NewInfluxDBDatastore :: "InfluxDB \<Rightarrow> 'c \<Rightarrow> 'c InfluxDBDataStore" where
  "NewInfluxDBDatastore cf c =
     \<lparr>cfg = cf, con = c, mut = False, points = [], ctx = False, closed = False,
      quit = False, flushNow = 0, flushed = 0, logged = []\<rparr>"

text \<open>
  \<^verbatim>\<open>sync.Mutex\<close>: \<^verbatim>\<open>Lock\<close> parks while the mutex is held; \<^verbatim>\<open>Unlock\<close> of a mutex that is
  not locked is a fatal error of the runtime. A goroutine may unlock a mutex that
  another one locked.
\<close>

definition Lock :: "'c InfluxDBDataStore \<Rightarrow> 'c InfluxDBDataStore exec" where
  "Lock i = (if mut i then Blocks else Done (i\<lparr>mut := True\<rparr>))"

definition Unlock :: "'c InfluxDBDataStore \<Rightarrow> 'c InfluxDBDataStore exec" where
  "Unlock i =
     (if mut i then Done (i\<lparr>mut := False\<rparr>) else Fatal ''sync: unlock of unlocked mutex'')"

subsection \<open>flush\<close>

text \<open>The body of \<^verbatim>\<open>flush\<close>, between \<^verbatim>\<open>i.mut.Lock()\<close> and the deferred \<^verbatim>\<open>i.mut.Unlock()\<close>.\<close>

definition flush_body ::
  "('c, 'r) env \<Rightarrow> 'c InfluxDBDataStore \<Rightarrow> error option \<times> 'c InfluxDBDataStore" where
  "flush_body env i =
     (case NewBatchPoints env (Database (cfg i)) ''ns'' of
        Some err \<Rightarrow> (Some (Wrap err ''getting influx batch point''), i)
      | None \<Rightarrow>
          if length (points i) > 0 then
            (case con_Write env
                    \<lparr>bp_Database = Database (cfg i), bp_Precision = ''ns'',
                     bp_Points = points i\<rparr> (con i) of
               (Some err, c) \<Rightarrow> (Some (Wrap err ''writing log line to influx''), i\<lparr>con := c\<rparr>)
             | (None, c) \<Rightarrow> (None, i\<lparr>con := c, points := []\<rparr>))
          else (None, i))"

definition flush ::
  "('c, 'r) env \<Rightarrow> 'c InfluxDBDataStore \<Rightarrow> (error option \<times> 'c InfluxDBDataStore) exec" where
  "flush env i =
     and_then (Lock i) (\<lambda>i1.
       case flush_body env i1 of
         (err, i2) \<Rightarrow> and_then (Unlock i2) (\<lambda>i3. Done (err, i3)))"

subsection \<open>Write\<close>

text \<open>
  \<^verbatim>\<open>Write\<close> parks in the middle, in its select, so it is two pieces. \<open>Write_enter\<close> runs
  from the entry to the send \<^verbatim>\<open>i.flushNow <- 1\<close>: it ends either at a return, with the
  error returned and the deferred unlock done, or at the select, holding the mutex.
  \<open>now\<close> is what \<^verbatim>\<open>time.Now()\<close> returns in this call.
\<close>

datatype 'c Write_pc =
  AtReturn "error option" "'c InfluxDBDataStore"
| AtSelect "'c InfluxDBDataStore"

fun pc_store :: "'c Write_pc \<Rightarrow> 'c InfluxDBDataStore" where
  "pc_store (AtReturn err i) = i"
| "pc_store (AtSelect i) = i"

definition Write_tags :: "('c, 'r) env \<Rightarrow> LogMessage \<Rightarrow> (string \<rightharpoonup> string)" where
  "Write_tags env logMsg =
     [''hostname'' \<mapsto> Hostname logMsg,
      ''severity'' \<mapsto> Severity_String env (Severity logMsg),
      ''facility'' \<mapsto> Facility_String env (Facility logMsg)]"

definition Write_fields :: "LogMessage \<Rightarrow> (string \<rightharpoonup> string)" where
  "Write_fields logMsg = [''message'' \<mapsto> Message logMsg]"

definition Write_tm :: "Time \<Rightarrow> LogMessage \<Rightarrow> Time" where
  "Write_tm now logMsg = (if RFC logMsg = RFC3164 then now else Timestamp logMsg)"

text \<open>The point \<^verbatim>\<open>pt\<close> that \<^verbatim>\<open>client.NewPoint\<close> returns when it returns no error.\<close>

definition Write_pt :: "('c, 'r) env \<Rightarrow> Time \<Rightarrow> LogMessage \<Rightarrow> Point" where
  "Write_pt env now logMsg =
     \<lparr>pt_name = BinaryName logMsg, pt_tags = Write_tags env logMsg,
      pt_fields = Write_fields logMsg, pt_time = Write_tm now logMsg\<rparr>"

definition Write_enter ::
  "('c, 'r) env \<Rightarrow> Time \<Rightarrow> LogMessage \<Rightarrow> 'c InfluxDBDataStore \<Rightarrow> 'c Write_pc exec" where
  "Write_enter env now logMsg i =
     and_then (Lock i) (\<lambda>i1.
       let tags = Write_tags env logMsg;
           fields = Write_fields logMsg;
           tm = Write_tm now logMsg
       in case NewPoint env (BinaryName logMsg) tags fields tm of
            Some err \<Rightarrow>
              and_then (Unlock i1) (\<lambda>i2.
                Done (AtReturn (Some (Wrap err ''adding new log message point'')) i2))
          | None \<Rightarrow>
              let pt = Write_pt env now logMsg;
                  i2 = i1\<lparr>points := points i1 @ [pt]\<rparr>
              in if length (points i2) \<ge> 20000 then
                   (if flushNow i2 < 10 then Done (AtSelect (i2\<lparr>flushNow := flushNow i2 + 1\<rparr>))
                    else Blocks)
                 else and_then (Unlock i2) (\<lambda>i3. Done (AtReturn None i3)))"

text \<open>
  The select of \<^verbatim>\<open>Write\<close>: the case \<^verbatim>\<open><-i.flushed\<close> can be taken when a value is
  buffered on the channel, the case \<^verbatim>\<open><-time.After(60 * time.Second)\<close> once the call
  has been in the select for 60 seconds. The argument of \<open>TimeAfter\<close> is the time the
  call has spent in the select, in nanoseconds, the unit of a \<^verbatim>\<open>time.Duration\<close>. The
  deferred unlock follows.
\<close>

definition Second :: nat where
  "Second = 1000000000"

datatype Write_case = RecvFlushed | TimeAfter nat

fun Write_select ::
  "Write_case \<Rightarrow> 'c InfluxDBDataStore \<Rightarrow> (error option \<times> 'c InfluxDBDataStore) exec" where
  "Write_select RecvFlushed i =
     (if flushed i > 0 then
        and_then (Unlock (i\<lparr>flushed := flushed i - 1\<rparr>)) (\<lambda>i1. Done (None, i1))
      else Blocks)"
| "Write_select (TimeAfter waited) i =
     (if 60 * Second \<le> waited then
        and_then (Unlock i) (\<lambda>i1. Done (Some (ErrorString ''timed out flushing logs''), i1))
      else Blocks)"

subsection \<open>The worker\<close>

text \<open>
  \<^verbatim>\<open>doWork\<close> makes its ticker, installs its deferred function and enters a loop
  around a select with four cases. Each case's body is a function; a case that is
  not ready gives \<open>Blocks\<close>. Ticks of the ticker and the cancellation of the context
  come from outside; the two channels are in the state.
\<close>

datatype doWork_case = CtxDone | TickerC | RecvFlushNow | RecvQuit

datatype 'c worker = InLoop "'c InfluxDBDataStore" | Returned "'c InfluxDBDataStore"

text \<open>
  The interval of the ticker, in seconds, and the duration handed to
  \<^verbatim>\<open>time.NewTicker\<close>: \<^verbatim>\<open>time.Duration(interval) * time.Second\<close>, a product of \<^verbatim>\<open>int64\<close>
  values, with wrap-around.
\<close>

definition doWork_interval :: "'c InfluxDBDataStore \<Rightarrow> int" where
  "doWork_interval i = (if WriteInterval (cfg i) = 0 then 1 else WriteInterval (cfg i))"

definition doWork_duration :: "'c InfluxDBDataStore \<Rightarrow> int" where
  "doWork_duration i = sint (word_of_int (doWork_interval i * int Second) :: 64 word)"

definition log_Errorf :: "string \<Rightarrow> error \<Rightarrow> 'c InfluxDBDataStore \<Rightarrow> 'c InfluxDBDataStore" where
  "log_Errorf fmt err i = i\<lparr>logged := logged i @ [fmt @ err_Error err]\<rparr>"

text \<open>
  The result of \<^verbatim>\<open>flush\<close> as the worker treats it in both cases that flush: an error
  is logged, and that is all.
\<close>

definition doWork_flush ::
  "('c, 'r) env \<Rightarrow> 'c InfluxDBDataStore \<Rightarrow> 'c InfluxDBDataStore exec" where
  "doWork_flush env i =
     and_then (flush env i) (\<lambda>(err, i1).
       case err of
         Some e \<Rightarrow> Done (log_Errorf ''failed to flush logs to backend: '' e i1)
       | None \<Rightarrow> Done i1)"

text \<open>The deferred function of \<^verbatim>\<open>doWork\<close>: \<^verbatim>\<open>ticker.Stop()\<close> and \<^verbatim>\<open>close(i.closed)\<close>.\<close>

definition doWork_return :: "'c InfluxDBDataStore \<Rightarrow> 'c worker exec" where
  "doWork_return i =
     (if closed i then Fatal ''close of closed channel''
      else Done (Returned (i\<lparr>closed := True\<rparr>)))"

fun doWork_select ::
  "('c, 'r) env \<Rightarrow> doWork_case \<Rightarrow> 'c InfluxDBDataStore \<Rightarrow> 'c worker exec" where
  "doWork_select env CtxDone i = (if ctx i then doWork_return i else Blocks)"
| "doWork_select env TickerC i =
     and_then (doWork_flush env i) (\<lambda>i1. Done (InLoop i1))"
| "doWork_select env RecvFlushNow i =
     (if flushNow i > 0 then
        and_then (Unlock (i\<lparr>flushNow := flushNow i - 1\<rparr>)) (\<lambda>i1.
        and_then (doWork_flush env i1) (\<lambda>i2.
        and_then (Lock i2) (\<lambda>i3.
          if flushed i3 < 10 then Done (InLoop (i3\<lparr>flushed := flushed i3 + 1\<rparr>))
          else Blocks)))
      else Blocks)"
| "doWork_select env RecvQuit i = (if quit i then doWork_return i else Blocks)"

text \<open>
  The loop, over the cases its select takes, in order. The list is what the
  environment does (ticks, requests, cancellation); when it ends the worker is
  waiting in its select.
\<close>

fun doWork_loop ::
  "('c, 'r) env \<Rightarrow> doWork_case list \<Rightarrow> 'c InfluxDBDataStore \<Rightarrow> 'c worker exec" where
  "doWork_loop env [] i = Done (InLoop i)"
| "doWork_loop env (c # cs) i =
     (case doWork_select env c i of
        Blocks \<Rightarrow> Blocks
      | Fatal m \<Rightarrow> Fatal m
      | Done (InLoop i1) \<Rightarrow> doWork_loop env cs i1
      | Done (Returned i1) \<Rightarrow> Done (Returned i1))"

text \<open>
  \<^verbatim>\<open>doWork\<close>, from its first line. \<^verbatim>\<open>time.NewTicker\<close> panics on a duration that is not
  positive; the deferred function is installed after the ticker is made, so that
  panic leaves \<^verbatim>\<open>closed\<close> open.
\<close>

definition doWork ::
  "('c, 'r) env \<Rightarrow> doWork_case list \<Rightarrow> 'c InfluxDBDataStore \<Rightarrow> 'c worker exec" where
  "doWork env cs i =
     (if doWork_duration i \<le> 0 then Fatal ''non-positive interval for NewTicker''
      else doWork_loop env cs i)"

text \<open>\<^verbatim>\<open>Wait\<close> receives from \<^verbatim>\<open>i.closed\<close>: it returns once the channel is closed.\<close>

definition Wait :: "'c InfluxDBDataStore \<Rightarrow> unit exec" where
  "Wait i = (if closed i then Done () else Blocks)"

text \<open>\<^verbatim>\<open>Rotate\<close>: the error returned and the datastore after the call.\<close>

definition Rotate :: "Time \<Rightarrow> 'c InfluxDBDataStore \<Rightarrow> error option \<times> 'c InfluxDBDataStore" where
  "Rotate olderThan i = (None, i)"

text \<open>
  A whole call of \<^verbatim>\<open>Write\<close>, in the two schedules of its wait: the worker, which is
  in its loop, takes the request and acknowledges it, then \<^verbatim>\<open>Write\<close> receives the
  acknowledgement (\<open>Flushed\<close>); or nothing else runs while the call is in its select
  (\<open>Waited d\<close>): it takes at once a value that is already buffered on \<^verbatim>\<open>flushed\<close>,
  and otherwise spends \<open>d\<close> nanoseconds there. Below the mark the call does not
  wait and the schedule plays no part.
\<close>

datatype wait = Flushed | Waited nat

definition Write ::
  "('c, 'r) env \<Rightarrow> Time \<Rightarrow> wait \<Rightarrow> LogMessage \<Rightarrow> 'c InfluxDBDataStore \<Rightarrow>
     (error option \<times> 'c InfluxDBDataStore) exec" where
  "Write env now w logMsg i =
     and_then (Write_enter env now logMsg i) (\<lambda>pc.
       case pc of
         AtReturn err i1 \<Rightarrow> Done (err, i1)
       | AtSelect i1 \<Rightarrow>
           (case w of
              Flushed \<Rightarrow>
                and_then (doWork_select env RecvFlushNow i1) (\<lambda>wk.
                  case wk of
                    InLoop i2 \<Rightarrow> Write_select RecvFlushed i2
                  | Returned i2 \<Rightarrow> Write_select RecvFlushed i2)
            | Waited d \<Rightarrow>
                if flushed i1 > 0 then Write_select RecvFlushed i1
                else Write_select (TimeAfter d) i1))"

text \<open>
  One producer that calls \<^verbatim>\<open>Write\<close> for each message of a list, one call after the
  other, as the listener does; the errors returned, in order, and the datastore after
  the last call. Every wait has the same schedule.
\<close>

fun Writes ::
  "('c, 'r) env \<Rightarrow> Time \<Rightarrow> wait \<Rightarrow> LogMessage list \<Rightarrow> 'c InfluxDBDataStore \<Rightarrow>
     (error option list \<times> 'c InfluxDBDataStore) exec" where
  "Writes env now w [] i = Done ([], i)"
| "Writes env now w (logMsg # logMsgs) i =
     (case Write env now w logMsg i of
        Blocks \<Rightarrow> Blocks
      | Fatal m \<Rightarrow> Fatal m
      | Done (err, i1) \<Rightarrow>
          (case Writes env now w logMsgs i1 of
             Blocks \<Rightarrow> Blocks
           | Fatal m \<Rightarrow> Fatal m
           | Done (errs, i2) \<Rightarrow> Done (err # errs, i2)))"

subsection \<open>The reader\<close>

text \<open>
  The struct \<^verbatim>\<open>influxDBReader\<close>, without its pointer to the datastore: the functions
  take the datastore and return it. \<open>result\<close> is \<open>None\<close> for \<^verbatim>\<open>nil\<close>. The field
  \<^verbatim>\<open>done\<close> is \<open>rd_done\<close>.
\<close>

record 'r influxDBReader =
  params :: QueryParams
  result :: "'r option"
  rd_done :: bool

definition ResultReader :: "QueryParams \<Rightarrow> 'r influxDBReader" where
  "ResultReader p = \<lparr>params = p, result = None, rd_done = False\<rparr>"

definition prepareQuery :: "'r influxDBReader \<Rightarrow> error + string" where
  "prepareQuery i =
     (if QueryParams.BinaryName (params i) = [] then
        Inl (ErrorString ''missing application name'')
      else
        let undefinedDate = zero_Time;
            q = ''select time,severity,message from '' @ QueryParams.BinaryName (params i);
            q = (if StartDate (params i) \<noteq> undefinedDate \<or> EndDate (params i) \<noteq> undefinedDate
                    \<or> QueryParams.Hostname (params i) \<noteq> []
                 then q @ '' where '' else q);
            options = [];
            options =
              (if StartDate (params i) \<noteq> undefinedDate then
                 options @ [''time >= '' @ Sprintf_d (UnixNano (StartDate (params i)))]
               else if EndDate (params i) \<noteq> undefinedDate then
                 options @ [''time <= '' @ Sprintf_d (UnixNano (EndDate (params i)))]
               else options);
            options =
              (if QueryParams.Hostname (params i) \<noteq> [] then
                 options @ [''hostname='' @ [quote] @ QueryParams.Hostname (params i) @ [quote]]
               else options);
            q = (if length options > 0 then q @ Join options '' and '' else q)
        in Inr q)"

text \<open>
  The three loops of \<^verbatim>\<open>ReadNext\<close> over a response, with the buffer they fill.
  \<^verbatim>\<open>val[2].(string)\<close> panics when the row has fewer than three values or the third is
  not a string. \<^verbatim>\<open>bytes.Buffer.Write\<close> returns no error.
\<close>

fun read_Values :: "ival list list \<Rightarrow> string \<Rightarrow> string exec" where
  "read_Values [] buf = Done buf"
| "read_Values (val # vals) buf =
     (if length val \<le> 2 then Fatal ''index out of range''
      else case val ! 2 of
        VString s \<Rightarrow>
          let line = s;
              line = (if length line > 0 \<and> last line \<noteq> newline then line @ [newline]
                      else line)
          in read_Values vals (buf @ line)
      | _ \<Rightarrow> Fatal ''interface conversion: interface {} is not string'')"

fun read_Series :: "Row list \<Rightarrow> string \<Rightarrow> string exec" where
  "read_Series [] buf = Done buf"
| "read_Series (serie # series) buf =
     (case read_Values (Values serie) buf of
        Blocks \<Rightarrow> Blocks
      | Fatal m \<Rightarrow> Fatal m
      | Done buf1 \<Rightarrow> read_Series series buf1)"

fun read_Results :: "Result list \<Rightarrow> string \<Rightarrow> string exec" where
  "read_Results [] buf = Done buf"
| "read_Results (res # ress) buf =
     (case read_Series (Series res) buf of
        Blocks \<Rightarrow> Blocks
      | Fatal m \<Rightarrow> Fatal m
      | Done buf1 \<Rightarrow> read_Results ress buf1)"

text \<open>
  The first part of \<^verbatim>\<open>ReadNext\<close>, run when \<^verbatim>\<open>i.result\<close> is nil: an early return with
  an error (\<open>Inl\<close>), or the response to read from (\<open>Inr\<close>). The result of \<^verbatim>\<open>flush\<close>
  is dropped.
\<close>

definition ReadNext_query ::
  "('c, 'r) env \<Rightarrow> 'r influxDBReader \<Rightarrow> 'c InfluxDBDataStore \<Rightarrow>
     ((error + 'r) \<times> 'c InfluxDBDataStore) exec" where
  "ReadNext_query env i ds =
     and_then (flush env ds) (\<lambda>(dropped, ds1).
       case prepareQuery i of
         Inl err \<Rightarrow> Done (Inl (Wrap err ''preparing query''), ds1)
       | Inr query \<Rightarrow>
           let influxQ = \<lparr>q_Command = query, q_Database = Database (cfg ds1),
                          q_Precision = ''ns'', q_ChunkSize = 20000\<rparr>
           in (case QueryAsChunk env influxQ (con ds1) of
                 (Inl err, c) \<Rightarrow> Done (Inl (Wrap err ''executing query''), ds1\<lparr>con := c\<rparr>)
               | (Inr resp, c) \<Rightarrow> Done (Inr resp, ds1\<lparr>con := c\<rparr>)))"

definition ReadNext ::
  "('c, 'r) env \<Rightarrow> 'r influxDBReader \<Rightarrow> 'c InfluxDBDataStore \<Rightarrow>
     ((error + string) \<times> 'r influxDBReader \<times> 'c InfluxDBDataStore) exec" where
  "ReadNext env i ds =
     and_then
       (case result i of
          None \<Rightarrow> ReadNext_query env i ds
        | Some r \<Rightarrow> Done (Inr r, ds))
       (\<lambda>(got, ds1).
          case got of
            Inl err \<Rightarrow> Done (Inl err, i, ds1)
          | Inr r \<Rightarrow>
              (case NextResponse env r of
                 (Inl err, r1) \<Rightarrow>
                   if err = EOF then Done (Inl err, i\<lparr>result := Some r1\<rparr>, ds1)
                   else Done (Inl (Wrap err ''reading results''), i\<lparr>result := Some r1\<rparr>, ds1)
               | (Inr res, r1) \<Rightarrow>
                   and_then (read_Results (Results res) [])
                     (\<lambda>contents. Done (Inr contents, i\<lparr>result := Some r1\<rparr>, ds1))))"

subsection \<open>A backend for concrete runs\<close>

text \<open>
  A backend whose connection state is the list of the calls made on it, in order. Its
  \<^verbatim>\<open>Write\<close> returns \<open>werr\<close>, its queries succeed and return the chunks \<open>chunks\<close>, and a
  response gives its chunks one by one, then \<^verbatim>\<open>io.EOF\<close>. The library builds every
  point and every batch.
\<close>

datatype call = WriteCall BatchPoints | QueryCall Query

definition recording_env ::
  "error option \<Rightarrow> Response list \<Rightarrow> (call list, Response list) env" where
  "recording_env werr chunks =
     \<lparr>NewPoint = (\<lambda>name tags fields t. None),
      NewBatchPoints = (\<lambda>db precision. None),
      con_Write = (\<lambda>bp c. (werr, c @ [WriteCall bp])),
      QueryAsChunk = (\<lambda>q c. (Inr chunks, c @ [QueryCall q])),
      NextResponse = (\<lambda>r. case r of [] \<Rightarrow> (Inl EOF, []) | x # xs \<Rightarrow> (Inr x, xs)),
      Severity_String = Sprintf_d,
      Facility_String = Sprintf_d\<rparr>"

definition refused :: error where
  "refused = ErrorString ''connection refused''"

definition demo_cfg :: InfluxDB where
  "demo_cfg = \<lparr>Database = ''coriolis'', WriteInterval = 0\<rparr>"

text \<open>
  Times of July 14, 2017: the clock reads 02:40:00 UTC, the message is stamped 10
  seconds before, and the point buffered earlier 20 seconds before.
\<close>

definition demo_now :: Time where
  "demo_now = 63635596800000000000"

definition demo_msg :: "RFCType \<Rightarrow> LogMessage" where
  "demo_msg rfc =
     \<lparr>Timestamp = 63635596790000000000, Hostname = ''h1'', Severity = 6, Facility = 1,
      BinaryName = ''app'', Message = ''started'', RFC = rfc\<rparr>"

definition demo_pt :: Point where
  "demo_pt =
     \<lparr>pt_name = ''app'', pt_tags = [''hostname'' \<mapsto> ''h0''],
      pt_fields = [''message'' \<mapsto> ''earlier''], pt_time = 63635596780000000000\<rparr>"

definition demo_bp :: "Point list \<Rightarrow> BatchPoints" where
  "demo_bp pts = \<lparr>bp_Database = ''coriolis'', bp_Precision = ''ns'', bp_Points = pts\<rparr>"

definition demo_store :: "Point list \<Rightarrow> call list InfluxDBDataStore" where
  "demo_store pts = (NewInfluxDBDatastore demo_cfg [])\<lparr>points := pts\<rparr>"

definition demo_params :: "string \<Rightarrow> string \<Rightarrow> Time \<Rightarrow> Time \<Rightarrow> QueryParams" where
  "demo_params app host start end_date =
     \<lparr>QueryParams.BinaryName = app, QueryParams.Hostname = host, StartDate = start,
      EndDate = end_date, QueryParams.Severity = 0\<rparr>"

definition demo_row :: "string \<Rightarrow> ival list" where
  "demo_row message = [VNumber 1500000000000000000, VString ''info'', VString message]"

definition demo_chunk :: "string list \<Rightarrow> Response" where
  "demo_chunk messages = \<lparr>Results = [\<lparr>Series = [\<lparr>Values = map demo_row messages\<rparr>]\<rparr>]\<rparr>"

subsection \<open>The chunk of a response, in the words of the specification\<close>

text \<open>
  The rows of a response in the order the loops of \<^verbatim>\<open>ReadNext\<close> visit them, the
  record of a row (its third value, when that is a string), and a record as one line
  of the chunk: a record that is not empty ends with a newline, which is added when
  the record lacks it. The source adds nothing to an empty record.
\<close>

definition Response_rows :: "Response \<Rightarrow> ival list list" where
  "Response_rows res = concat (map (\<lambda>r. concat (map Values (Series r))) (Results res))"

definition row_record :: "ival list \<Rightarrow> string option" where
  "row_record val =
     (if 2 < length val then (case val ! 2 of VString s \<Rightarrow> Some s | _ \<Rightarrow> None) else None)"

definition as_line :: "string \<Rightarrow> string" where
  "as_line message =
     (if message = [] \<or> last message = newline then message else message @ [newline])"

text \<open>The records of a response: none when a row has no record.\<close>

definition Response_records :: "Response \<Rightarrow> string list option" where
  "Response_records res = List.those (map row_record (Response_rows res))"

section \<open>Properties\<close>

subsection \<open>Auxiliary facts\<close>

lemmas demo_defs = recording_env_def refused_def demo_cfg_def demo_msg_def demo_pt_def
  demo_bp_def demo_store_def NewInfluxDBDatastore_def

lemma sint_Second: "sint (1000000000 :: 64 word) = 1000000000"
  by code_simp

lemma doWork_duration_default: "WriteInterval (cfg i) = 0 \<Longrightarrow> doWork_duration i = 1000000000"
  by (simp add: doWork_duration_def doWork_interval_def Second_def sint_Second)

lemma doWork_loop_append:
  "doWork_loop env cs i = Done (InLoop i1) \<Longrightarrow>
     doWork_loop env (cs @ rest) i = doWork_loop env rest i1"
  by (induction cs arbitrary: i) (auto split: exec.splits worker.splits)

lemma flush_free: "\<not> mut i \<Longrightarrow> flush env i = Done (flush_body env i)"
  by (cases i)
     (auto simp: flush_def flush_body_def Lock_def Unlock_def and_then_def
           split: option.split prod.split)

lemma flush_held: "mut i \<Longrightarrow> flush env i = Blocks"
  by (simp add: flush_def Lock_def and_then_def)

lemma flush_body_fail:
  assumes "NewBatchPoints env (Database (cfg i)) ''ns'' = None" and "points i \<noteq> []"
    and "con_Write env \<lparr>bp_Database = Database (cfg i), bp_Precision = ''ns'',
           bp_Points = points i\<rparr> (con i) = (Some e, c)"
  shows "flush_body env i = (Some (Wrap e ''writing log line to influx''), i\<lparr>con := c\<rparr>)"
  using assms by (simp add: flush_body_def)

lemma flush_body_ok:
  assumes "NewBatchPoints env (Database (cfg i)) ''ns'' = None" and "points i \<noteq> []"
    and "con_Write env \<lparr>bp_Database = Database (cfg i), bp_Precision = ''ns'',
           bp_Points = points i\<rparr> (con i) = (None, c)"
  shows "flush_body env i = (None, i\<lparr>con := c, points := []\<rparr>)"
  using assms by (simp add: flush_body_def)

subsection \<open>A backend error during a periodic flush\<close>

text \<open>
  C1, as the code has it. When the submission of a periodic flush fails, \<^verbatim>\<open>flush\<close>
  returns the wrapped error before it reaches the statement that empties the buffer:
  the store is as before except for what the backend did to the connection, the
  worker logs the error, and the next flush submits the same points again.
  The claim says that the buffer is cleared and the points are never resubmitted.
\<close>

theorem flush_error_keeps_points:
  assumes free: "\<not> mut i"
    and nbp: "NewBatchPoints env (Database (cfg i)) ''ns'' = None"
    and buffered: "points i \<noteq> []"
    and fails: "con_Write env \<lparr>bp_Database = Database (cfg i), bp_Precision = ''ns'',
                  bp_Points = points i\<rparr> (con i) = (Some e, c)"
  shows "flush env i = Done (Some (Wrap e ''writing log line to influx''), i\<lparr>con := c\<rparr>)
       \<and> doWork_select env TickerC i =
           Done (InLoop (i\<lparr>con := c,
             logged := logged i @
               [''failed to flush logs to backend: writing log line to influx: '' @ err_Error e]\<rparr>))
       \<and> points (i\<lparr>con := c\<rparr>) = points i
       \<and> flush env (i\<lparr>con := c\<rparr>) =
           Done (case con_Write env \<lparr>bp_Database = Database (cfg i), bp_Precision = ''ns'',
                        bp_Points = points i\<rparr> c of
                   (Some err, c1) \<Rightarrow> (Some (Wrap err ''writing log line to influx''), i\<lparr>con := c1\<rparr>)
                 | (None, c1) \<Rightarrow> (None, i\<lparr>con := c1, points := []\<rparr>))"
proof -
  have f: "flush env i = Done (Some (Wrap e ''writing log line to influx''), i\<lparr>con := c\<rparr>)"
    by (simp add: flush_free [OF free] flush_body_fail [OF nbp buffered fails])
  have t: "doWork_select env TickerC i =
           Done (InLoop (i\<lparr>con := c,
             logged := logged i @
               [''failed to flush logs to backend: writing log line to influx: '' @ err_Error e]\<rparr>))"
    using f by (simp add: doWork_flush_def and_then_def log_Errorf_def)
  have again: "flush env (i\<lparr>con := c\<rparr>) =
           Done (case con_Write env \<lparr>bp_Database = Database (cfg i), bp_Precision = ''ns'',
                        bp_Points = points i\<rparr> c of
                   (Some err, c1) \<Rightarrow> (Some (Wrap err ''writing log line to influx''), i\<lparr>con := c1\<rparr>)
                 | (None, c1) \<Rightarrow> (None, i\<lparr>con := c1, points := []\<rparr>))"
    using free nbp buffered
    by (simp add: flush_free flush_body_def split: prod.split option.split)
  show ?thesis using f t again by simp
qed

text \<open>
  The theorem at a store that buffers one point, on a backend that refuses every
  write: both flushes submit the point.
\<close>

theorem flush_error_keeps_points_witness:
  "\<not> mut (demo_store [demo_pt])
   \<and> NewBatchPoints (recording_env (Some refused) [])
         (Database (cfg (demo_store [demo_pt]))) ''ns'' = None
   \<and> points (demo_store [demo_pt]) \<noteq> []
   \<and> con_Write (recording_env (Some refused) []) (demo_bp [demo_pt]) [] =
       (Some refused, [WriteCall (demo_bp [demo_pt])])
   \<and> flush (recording_env (Some refused) []) (demo_store [demo_pt]) =
       Done (Some (Wrap refused ''writing log line to influx''),
             (demo_store [demo_pt])\<lparr>con := [WriteCall (demo_bp [demo_pt])]\<rparr>)
   \<and> flush (recording_env (Some refused) [])
         ((demo_store [demo_pt])\<lparr>con := [WriteCall (demo_bp [demo_pt])]\<rparr>) =
       Done (Some (Wrap refused ''writing log line to influx''),
             (demo_store [demo_pt])
               \<lparr>con := [WriteCall (demo_bp [demo_pt]), WriteCall (demo_bp [demo_pt])]\<rparr>)"
  using flush_error_keeps_points [of "demo_store [demo_pt]" "recording_env (Some refused) []"
      refused "[WriteCall (demo_bp [demo_pt])]"]
  by (simp add: demo_defs)

text \<open>
  The claim fails at that store: after two ticks of the ticker the buffer still holds
  the point, and the backend was handed it twice.
\<close>

theorem periodic_flush_error_counterexample:
  "doWork (recording_env (Some refused) []) [TickerC, TickerC] (demo_store [demo_pt]) =
     Done (InLoop ((demo_store [demo_pt])
       \<lparr>con := [WriteCall (demo_bp [demo_pt]), WriteCall (demo_bp [demo_pt])],
        logged :=
          [''failed to flush logs to backend: writing log line to influx: connection refused'',
           ''failed to flush logs to backend: writing log line to influx: connection refused'']\<rparr>))
   \<and> points ((demo_store [demo_pt])
       \<lparr>con := [WriteCall (demo_bp [demo_pt]), WriteCall (demo_bp [demo_pt])],
        logged :=
          [''failed to flush logs to backend: writing log line to influx: connection refused'',
           ''failed to flush logs to backend: writing log line to influx: connection refused'']\<rparr>)
     = [demo_pt]"
  by (simp add: demo_defs doWork_def doWork_duration_default doWork_flush_def flush_def
        flush_body_def Lock_def Unlock_def and_then_def log_Errorf_def)

lemmas step_defs = Write_def Write_enter_def doWork_flush_def flush_def flush_body_def
  Lock_def Unlock_def and_then_def log_Errorf_def

subsection \<open>A backend error during an on-demand flush\<close>

text \<open>
  C2, as the code has it. A \<^verbatim>\<open>Write\<close> reaches the mark and requests a flush; the worker
  takes the request, its flush fails at the backend, and the worker logs the error and
  acknowledges all the same: the channel \<^verbatim>\<open>flushed\<close> carries the value 1 and no error.
  The \<^verbatim>\<open>Write\<close> call returns nil, and the buffer keeps every point. The claim says
  that the call returns the backend error.
\<close>

theorem on_demand_flush_error_not_returned:
  assumes free: "\<not> mut i"
    and pt_ok: "NewPoint env (BinaryName logMsg) (Write_tags env logMsg) (Write_fields logMsg)
                  (Write_tm now logMsg) = None"
    and mark: "length (points i) + 1 \<ge> 20000"
    and room: "flushNow i < 10" "flushed i < 10"
    and nbp: "NewBatchPoints env (Database (cfg i)) ''ns'' = None"
    and fails: "con_Write env \<lparr>bp_Database = Database (cfg i), bp_Precision = ''ns'',
                  bp_Points = points i @ [Write_pt env now logMsg]\<rparr> (con i) = (Some e, c)"
  shows "Write env now Flushed logMsg i =
           Done (None, i\<lparr>con := c, points := points i @ [Write_pt env now logMsg],
             logged := logged i @
               [''failed to flush logs to backend: writing log line to influx: '' @ err_Error e]\<rparr>)"
  using assms by (cases i) (simp add: step_defs)

theorem on_demand_flush_error_not_returned_witness:
  "\<not> mut (demo_store (replicate 19999 demo_pt))
   \<and> length (points (demo_store (replicate 19999 demo_pt))) + 1 \<ge> 20000
   \<and> flushNow (demo_store (replicate 19999 demo_pt)) < 10
   \<and> flushed (demo_store (replicate 19999 demo_pt)) < 10
   \<and> Write (recording_env (Some refused) []) demo_now Flushed (demo_msg RFC3164)
        (demo_store (replicate 19999 demo_pt)) =
      Done (None, (demo_store (replicate 19999 demo_pt))
        \<lparr>con := [WriteCall (demo_bp (replicate 19999 demo_pt @
                   [Write_pt (recording_env (Some refused) []) demo_now (demo_msg RFC3164)]))],
         points := replicate 19999 demo_pt @
                   [Write_pt (recording_env (Some refused) []) demo_now (demo_msg RFC3164)],
         logged :=
           [''failed to flush logs to backend: writing log line to influx: connection refused'']\<rparr>)"
  using on_demand_flush_error_not_returned [of "demo_store (replicate 19999 demo_pt)"
      "recording_env (Some refused) []" "demo_msg RFC3164" demo_now refused
      "[WriteCall (demo_bp (replicate 19999 demo_pt @
                   [Write_pt (recording_env (Some refused) []) demo_now (demo_msg RFC3164)]))]"]
  by (simp add: demo_defs)

text \<open>
  The claim fails at a store with 19999 buffered points on a backend that refuses every
  write: the call that appends the 20000th point returns nil (\<open>None\<close>), the backend
  was called once, and the error is in the log only.
\<close>

theorem on_demand_flush_error_counterexample:
  "Write (recording_env (Some refused) []) demo_now Flushed (demo_msg RFC5424)
        (demo_store (replicate 19999 demo_pt)) =
      Done (None, (demo_store (replicate 19999 demo_pt))
        \<lparr>con := [WriteCall (demo_bp (replicate 19999 demo_pt @
                   [Write_pt (recording_env (Some refused) []) demo_now (demo_msg RFC5424)]))],
         points := replicate 19999 demo_pt @
                   [Write_pt (recording_env (Some refused) []) demo_now (demo_msg RFC5424)],
         logged :=
           [''failed to flush logs to backend: writing log line to influx: connection refused'']\<rparr>)"
  by (simp add: demo_defs step_defs)

subsection \<open>Cancellation\<close>

text \<open>
  C3, as the code has it. The worker makes no final flush. When its select takes the
  case \<^verbatim>\<open>ctx.Done()\<close> it returns: its deferred function stops the ticker and closes
  \<^verbatim>\<open>closed\<close>, and nothing is flushed. That holds whatever cases \<open>cs\<close> the select took
  before, in a worker whose ticker could be made; a tick or a request that is ready
  when the context is cancelled may be taken first, and flushes as usual. \<^verbatim>\<open>Wait\<close>
  blocks until the worker returns and returns after; the buffer and the connection
  are as they were when the case was taken, so the points in the buffer at that
  moment are still there, not submitted, when \<^verbatim>\<open>Wait\<close> returns. The claim says that a
  final flush submits the buffered points before \<^verbatim>\<open>Wait\<close> returns.
\<close>

theorem cancellation_stops_without_flush:
  assumes ticker: "0 < doWork_duration i"
    and before: "doWork_loop env cs i = Done (InLoop i1)"
    and cancelled: "ctx i1" and running: "\<not> closed i1"
  shows "doWork env (cs @ CtxDone # rest) i = Done (Returned (i1\<lparr>closed := True\<rparr>))
       \<and> doWork_select env CtxDone i1 = Done (Returned (i1\<lparr>closed := True\<rparr>))
       \<and> Wait i1 = Blocks
       \<and> Wait (i1\<lparr>closed := True\<rparr>) = Done ()
       \<and> points (i1\<lparr>closed := True\<rparr>) = points i1
       \<and> con (i1\<lparr>closed := True\<rparr>) = con i1"
proof -
  have step: "doWork_select env CtxDone i1 = Done (Returned (i1\<lparr>closed := True\<rparr>))"
    using cancelled running by (simp add: doWork_return_def)
  have "doWork_loop env (cs @ CtxDone # rest) i = doWork_loop env (CtxDone # rest) i1"
    using before by (rule doWork_loop_append)
  then have "doWork env (cs @ CtxDone # rest) i = Done (Returned (i1\<lparr>closed := True\<rparr>))"
    using ticker step by (simp add: doWork_def)
  then show ?thesis
    using step running by (simp add: Wait_def)
qed

text \<open>
  The theorem at a store that buffers one point when the context is cancelled, on a
  backend that accepts every write, in two schedules: the cancellation case is taken
  at once, and the point stays in the buffer; or a tick is taken first, which submits
  the point, and the cancellation case after it, which submits nothing.
\<close>

theorem cancellation_stops_without_flush_witness:
  "0 < doWork_duration ((demo_store [demo_pt])\<lparr>ctx := True\<rparr>)
   \<and> doWork_loop (recording_env None []) [] ((demo_store [demo_pt])\<lparr>ctx := True\<rparr>) =
       Done (InLoop ((demo_store [demo_pt])\<lparr>ctx := True\<rparr>))
   \<and> ctx ((demo_store [demo_pt])\<lparr>ctx := True\<rparr>)
   \<and> \<not> closed ((demo_store [demo_pt])\<lparr>ctx := True\<rparr>)
   \<and> doWork (recording_env None []) [CtxDone, TickerC] ((demo_store [demo_pt])\<lparr>ctx := True\<rparr>) =
       Done (Returned ((demo_store [demo_pt])\<lparr>ctx := True, closed := True\<rparr>))
   \<and> Wait ((demo_store [demo_pt])\<lparr>ctx := True, closed := True\<rparr>) = Done ()
   \<and> doWork_loop (recording_env None []) [TickerC] ((demo_store [demo_pt])\<lparr>ctx := True\<rparr>) =
       Done (InLoop ((demo_store [])\<lparr>con := [WriteCall (demo_bp [demo_pt])], ctx := True\<rparr>))
   \<and> doWork (recording_env None []) [TickerC, CtxDone, TickerC]
         ((demo_store [demo_pt])\<lparr>ctx := True\<rparr>) =
       Done (Returned ((demo_store [])
         \<lparr>con := [WriteCall (demo_bp [demo_pt])], ctx := True, closed := True\<rparr>))"
  using cancellation_stops_without_flush [of "(demo_store [demo_pt])\<lparr>ctx := True\<rparr>"
      "recording_env None []" "[]" "(demo_store [demo_pt])\<lparr>ctx := True\<rparr>" "[TickerC]"]
    cancellation_stops_without_flush [of "(demo_store [demo_pt])\<lparr>ctx := True\<rparr>"
      "recording_env None []" "[TickerC]"
      "(demo_store [])\<lparr>con := [WriteCall (demo_bp [demo_pt])], ctx := True\<rparr>" "[TickerC]"]
  by (simp add: demo_defs doWork_duration_default doWork_flush_def flush_def flush_body_def
        Lock_def Unlock_def and_then_def)

text \<open>
  The claim fails at that store when the cancellation case is taken at once: the
  worker has returned, \<^verbatim>\<open>Wait\<close> returns, the point is still in the buffer and the
  backend was never called.
\<close>

theorem final_flush_counterexample:
  "doWork (recording_env None []) [CtxDone] ((demo_store [demo_pt])\<lparr>ctx := True\<rparr>) =
       Done (Returned ((demo_store [demo_pt])\<lparr>ctx := True, closed := True\<rparr>))
   \<and> Wait ((demo_store [demo_pt])\<lparr>ctx := True, closed := True\<rparr>) = Done ()
   \<and> points ((demo_store [demo_pt])\<lparr>ctx := True, closed := True\<rparr>) = [demo_pt]
   \<and> con ((demo_store [demo_pt])\<lparr>ctx := True, closed := True\<rparr>) = []"
  by (simp add: demo_defs doWork_def doWork_duration_default Wait_def doWork_return_def)

subsection \<open>The high-water mark\<close>

lemma Write_below_mark:
  assumes free: "\<not> mut i"
    and pt_ok: "NewPoint env (BinaryName logMsg) (Write_tags env logMsg) (Write_fields logMsg)
                  (Write_tm now logMsg) = None"
    and below: "length (points i) + 1 < 20000"
  shows "Write env now w logMsg i =
           Done (None, i\<lparr>points := points i @ [Write_pt env now logMsg]\<rparr>)"
  using assms by (cases i) (simp add: step_defs)

lemma Write_enter_at_mark:
  assumes free: "\<not> mut i"
    and pt_ok: "NewPoint env (BinaryName logMsg) (Write_tags env logMsg) (Write_fields logMsg)
                  (Write_tm now logMsg) = None"
    and mark: "20000 \<le> length (points i) + 1" and room: "flushNow i < 10"
  shows "Write_enter env now logMsg i =
           Done (AtSelect (i\<lparr>mut := True, points := points i @ [Write_pt env now logMsg],
                            flushNow := flushNow i + 1\<rparr>))"
  using assms by (cases i) (simp add: step_defs)

lemma Write_timed_out:
  assumes free: "\<not> mut i"
    and pt_ok: "NewPoint env (BinaryName logMsg) (Write_tags env logMsg) (Write_fields logMsg)
                  (Write_tm now logMsg) = None"
    and mark: "20000 \<le> length (points i) + 1" and room: "flushNow i < 10"
    and no_ack: "flushed i = 0" and late: "60 * Second \<le> d"
  shows "Write env now (Waited d) logMsg i =
           Done (Some (ErrorString ''timed out flushing logs''),
                 i\<lparr>points := points i @ [Write_pt env now logMsg],
                   flushNow := flushNow i + 1\<rparr>)"
  using assms by (cases i) (simp add: step_defs)

lemma Write_still_waiting:
  assumes free: "\<not> mut i"
    and pt_ok: "NewPoint env (BinaryName logMsg) (Write_tags env logMsg) (Write_fields logMsg)
                  (Write_tm now logMsg) = None"
    and mark: "20000 \<le> length (points i) + 1" and room: "flushNow i < 10"
    and no_ack: "flushed i = 0" and early: "d < 60 * Second"
  shows "Write env now (Waited d) logMsg i = Blocks"
  using assms by (cases i) (simp add: step_defs)

lemma Write_buffered_ack:
  assumes free: "\<not> mut i"
    and pt_ok: "NewPoint env (BinaryName logMsg) (Write_tags env logMsg) (Write_fields logMsg)
                  (Write_tm now logMsg) = None"
    and mark: "20000 \<le> length (points i) + 1" and room: "flushNow i < 10"
    and ack: "0 < flushed i"
  shows "Write env now (Waited d) logMsg i =
           Done (None, i\<lparr>points := points i @ [Write_pt env now logMsg],
                   flushNow := flushNow i + 1, flushed := flushed i - 1\<rparr>)"
  using assms by (cases i) (simp add: step_defs)

lemma Write_served:
  assumes free: "\<not> mut i"
    and pt_ok: "NewPoint env (BinaryName logMsg) (Write_tags env logMsg) (Write_fields logMsg)
                  (Write_tm now logMsg) = None"
    and mark: "20000 \<le> length (points i) + 1"
    and room: "flushNow i < 10" "flushed i < 10"
    and nbp: "NewBatchPoints env (Database (cfg i)) ''ns'' = None"
  shows "Write env now Flushed logMsg i =
           Done (None,
             case con_Write env \<lparr>bp_Database = Database (cfg i), bp_Precision = ''ns'',
                    bp_Points = points i @ [Write_pt env now logMsg]\<rparr> (con i) of
               (None, c) \<Rightarrow> i\<lparr>con := c, points := []\<rparr>
             | (Some e, c) \<Rightarrow>
                 i\<lparr>con := c, points := points i @ [Write_pt env now logMsg],
                   logged := logged i @
                     [''failed to flush logs to backend: writing log line to influx: ''
                        @ err_Error e]\<rparr>)"
  using assms by (cases i) (auto simp: step_defs split: prod.split option.split)

lemma Write_request_blocks:
  assumes free: "\<not> mut i"
    and pt_ok: "NewPoint env (BinaryName logMsg) (Write_tags env logMsg) (Write_fields logMsg)
                  (Write_tm now logMsg) = None"
    and mark: "20000 \<le> length (points i) + 1" and full: "10 \<le> flushNow i"
  shows "Write_enter env now logMsg i = Blocks"
    and "Write env now (Waited d) logMsg i = Blocks"
  using assms by (cases i; simp add: step_defs)+

lemma Writes_append:
  "Writes env now w (xs @ ys) i =
     (case Writes env now w xs i of
        Blocks \<Rightarrow> Blocks
      | Fatal m \<Rightarrow> Fatal m
      | Done (errs, i1) \<Rightarrow>
          (case Writes env now w ys i1 of
             Blocks \<Rightarrow> Blocks
           | Fatal m \<Rightarrow> Fatal m
           | Done (errs1, i2) \<Rightarrow> Done (errs @ errs1, i2)))"
  by (induction xs arbitrary: i) (auto split: exec.split prod.split)

lemma Writes_below_mark:
  assumes pt_ok: "NewPoint env (BinaryName logMsg) (Write_tags env logMsg) (Write_fields logMsg)
                  (Write_tm now logMsg) = None"
  shows "\<not> mut i \<Longrightarrow> length (points i) + n < 20000 \<Longrightarrow>
     Writes env now w (replicate n logMsg) i =
       Done (replicate n None,
             i\<lparr>points := points i @ replicate n (Write_pt env now logMsg)\<rparr>)"
proof (induction n arbitrary: i)
  case 0
  then show ?case by simp
next
  case (Suc n)
  have w: "Write env now w logMsg i =
           Done (None, i\<lparr>points := points i @ [Write_pt env now logMsg]\<rparr>)"
    using Write_below_mark [OF Suc.prems(1) pt_ok] Suc.prems(2) by simp
  have "Writes env now w (replicate n logMsg)
          (i\<lparr>points := points i @ [Write_pt env now logMsg]\<rparr>) =
        Done (replicate n None,
          i\<lparr>points := points i @ [Write_pt env now logMsg]\<rparr>
           \<lparr>points := points (i\<lparr>points := points i @ [Write_pt env now logMsg]\<rparr>)
               @ replicate n (Write_pt env now logMsg)\<rparr>)"
    using Suc.prems by (intro Suc.IH) simp_all
  then show ?case
    by (simp add: w replicate_app_Cons_same)
qed

lemma Writes_timed_out:
  assumes pt_ok: "NewPoint env (BinaryName logMsg) (Write_tags env logMsg) (Write_fields logMsg)
                  (Write_tm now logMsg) = None"
    and late: "60 * Second \<le> d"
  shows "\<not> mut i \<Longrightarrow> 20000 \<le> length (points i) + 1 \<Longrightarrow> flushNow i + n \<le> 10 \<Longrightarrow>
     flushed i = 0 \<Longrightarrow>
     Writes env now (Waited d) (replicate n logMsg) i =
       Done (replicate n (Some (ErrorString ''timed out flushing logs'')),
             i\<lparr>points := points i @ replicate n (Write_pt env now logMsg),
               flushNow := flushNow i + n\<rparr>)"
proof (induction n arbitrary: i)
  case 0
  then show ?case by simp
next
  case (Suc n)
  have w: "Write env now (Waited d) logMsg i =
           Done (Some (ErrorString ''timed out flushing logs''),
                 i\<lparr>points := points i @ [Write_pt env now logMsg],
                   flushNow := flushNow i + 1\<rparr>)"
    using Write_timed_out [OF Suc.prems(1) pt_ok Suc.prems(2) _ Suc.prems(4) late] Suc.prems(3)
    by simp
  let ?i1 = "i\<lparr>points := points i @ [Write_pt env now logMsg], flushNow := flushNow i + 1\<rparr>"
  have "Writes env now (Waited d) (replicate n logMsg) ?i1 =
        Done (replicate n (Some (ErrorString ''timed out flushing logs'')),
          ?i1\<lparr>points := points ?i1 @ replicate n (Write_pt env now logMsg),
               flushNow := flushNow ?i1 + n\<rparr>)"
    using Suc.prems by (intro Suc.IH) simp_all
  then show ?case
    by (simp add: w replicate_app_Cons_same)
qed

text \<open>
  C4, at an input where the code does not do what the claim says. A producer that no
  worker serves writes 20010 messages to the datastore as \<^verbatim>\<open>NewInfluxDBDatastore\<close>
  makes it. The first 19999 calls return nil; the next 10 reach the mark, send their
  request and time out after 60 seconds each, which fills \<^verbatim>\<open>flushNow\<close>. The last call
  appends its point and blocks on the send \<^verbatim>\<open>i.flushNow <- 1\<close>, which stands before the
  select and outside its timer: the call has not reached its select, and left alone
  for 60 seconds it has returned no error.
\<close>

theorem Write_blocks_on_full_request_channel:
  "Writes (recording_env None []) demo_now (Waited (60 * Second))
       (replicate 20009 (demo_msg RFC5424)) (NewInfluxDBDatastore demo_cfg []) =
     Done (replicate 19999 None @ replicate 10 (Some (ErrorString ''timed out flushing logs'')),
           (NewInfluxDBDatastore demo_cfg [])
             \<lparr>points := replicate 20009
                          (Write_pt (recording_env None []) demo_now (demo_msg RFC5424)),
              flushNow := 10\<rparr>)
   \<and> Write (recording_env None []) demo_now (Waited (60 * Second)) (demo_msg RFC5424)
       ((NewInfluxDBDatastore demo_cfg [])
             \<lparr>points := replicate 20009
                          (Write_pt (recording_env None []) demo_now (demo_msg RFC5424)),
              flushNow := 10\<rparr>) = Blocks
   \<and> Write_enter (recording_env None []) demo_now (demo_msg RFC5424)
       ((NewInfluxDBDatastore demo_cfg [])
             \<lparr>points := replicate 20009
                          (Write_pt (recording_env None []) demo_now (demo_msg RFC5424)),
              flushNow := 10\<rparr>) = Blocks"
proof -
  let ?env = "recording_env None [] :: (call list, Response list) env"
  let ?m = "demo_msg RFC5424"
  let ?pt = "Write_pt ?env demo_now ?m"
  let ?i0 = "NewInfluxDBDatastore demo_cfg [] :: call list InfluxDBDataStore"
  let ?i1 = "?i0\<lparr>points := replicate 19999 ?pt\<rparr>"
  let ?i2 = "?i0\<lparr>points := replicate 20009 ?pt, flushNow := 10\<rparr>"
  have pt_ok: "NewPoint ?env (BinaryName ?m) (Write_tags ?env ?m) (Write_fields ?m)
                 (Write_tm demo_now ?m) = None"
    by (simp add: recording_env_def)
  have parts: "replicate 20009 x = replicate 19999 x @ replicate 10 x" for x :: 'a
    by (simp add: replicate_add [symmetric])
  have first: "Writes ?env demo_now (Waited (60 * Second)) (replicate 19999 ?m) ?i0 =
                 Done (replicate 19999 None, ?i1)"
    using Writes_below_mark [OF pt_ok, of ?i0 19999 "Waited (60 * Second)"]
    by (simp add: NewInfluxDBDatastore_def)
  have more: "Writes ?env demo_now (Waited (60 * Second)) (replicate 10 ?m) ?i1 =
                Done (replicate 10 (Some (ErrorString ''timed out flushing logs'')), ?i2)"
    using Writes_timed_out [OF pt_ok, of "60 * Second" ?i1 10]
    by (simp add: NewInfluxDBDatastore_def parts)
  have run: "Writes ?env demo_now (Waited (60 * Second)) (replicate 20009 ?m) ?i0 =
     Done (replicate 19999 None @ replicate 10 (Some (ErrorString ''timed out flushing logs'')), ?i2)"
    by (simp only: parts [of ?m] Writes_append first more exec.case prod.case)
  have alone: "Write ?env demo_now (Waited (60 * Second)) ?m ?i2 = Blocks"
    using Write_request_blocks(2) [OF _ pt_ok, of ?i2 "60 * Second"]
    by (simp add: NewInfluxDBDatastore_def)
  have parked: "Write_enter ?env demo_now ?m ?i2 = Blocks"
    using Write_request_blocks(1) [OF _ pt_ok, of ?i2]
    by (simp add: NewInfluxDBDatastore_def)
  show ?thesis using run alone parked by simp
qed

subsection \<open>The timestamp of a stored point\<close>

text \<open>
  C5. The clock read \<open>invoked\<close> when \<^verbatim>\<open>Write\<close> was called and has advanced by \<open>lag\<close>
  when the call reads it with \<^verbatim>\<open>time.Now()\<close>. The call finds the mutex free and room
  for a request on \<^verbatim>\<open>flushNow\<close>, and the library builds the point. Then the call
  stores one point, after those in the buffer: below the mark it returns nil with the
  point appended; at the mark it returns nil with the point appended when an
  acknowledgement was already buffered, the timeout error with the point appended
  after 60 seconds with none, and nil when the worker served it, the point being the
  last of the batch handed to the backend. For a message of dialect RFC3164 the time
  of that point is the reading of the clock, not before the instant of the call,
  whatever timestamp the message carries; for a message of the other dialect it is
  the message's \<^verbatim>\<open>Timestamp\<close>.
\<close>

theorem Write_timestamp:
  fixes invoked :: Time and lag :: nat
  defines "now \<equiv> invoked + int lag"
  assumes free: "\<not> mut i"
    and pt_ok: "NewPoint env (BinaryName logMsg) (Write_tags env logMsg) (Write_fields logMsg)
                  (Write_tm now logMsg) = None"
    and room: "flushNow i < 10"
  shows "(length (points i) + 1 < 20000 \<longrightarrow>
            Write env now w logMsg i =
              Done (None, i\<lparr>points := points i @ [Write_pt env now logMsg]\<rparr>))
       \<and> (20000 \<le> length (points i) + 1 \<and> 0 < flushed i \<longrightarrow>
            Write env now (Waited d) logMsg i =
              Done (None, i\<lparr>points := points i @ [Write_pt env now logMsg],
                      flushNow := flushNow i + 1, flushed := flushed i - 1\<rparr>))
       \<and> (20000 \<le> length (points i) + 1 \<and> flushed i = 0 \<and> 60 * Second \<le> d \<longrightarrow>
            Write env now (Waited d) logMsg i =
              Done (Some (ErrorString ''timed out flushing logs''),
                    i\<lparr>points := points i @ [Write_pt env now logMsg],
                      flushNow := flushNow i + 1\<rparr>))
       \<and> (20000 \<le> length (points i) + 1 \<and> flushed i < 10
            \<and> NewBatchPoints env (Database (cfg i)) ''ns'' = None \<longrightarrow>
            Write env now Flushed logMsg i =
              Done (None,
                case con_Write env \<lparr>bp_Database = Database (cfg i), bp_Precision = ''ns'',
                       bp_Points = points i @ [Write_pt env now logMsg]\<rparr> (con i) of
                  (None, c) \<Rightarrow> i\<lparr>con := c, points := []\<rparr>
                | (Some e, c) \<Rightarrow>
                    i\<lparr>con := c, points := points i @ [Write_pt env now logMsg],
                      logged := logged i @
                        [''failed to flush logs to backend: writing log line to influx: ''
                           @ err_Error e]\<rparr>))
       \<and> (RFC logMsg = RFC3164 \<longrightarrow>
            pt_time (Write_pt env now logMsg) = invoked + int lag
            \<and> invoked \<le> pt_time (Write_pt env now logMsg))
       \<and> (RFC logMsg = RFC5424 \<longrightarrow> pt_time (Write_pt env now logMsg) = Timestamp logMsg)"
proof -
  have stamp: "pt_time (Write_pt env now logMsg) =
      (if RFC logMsg = RFC3164 then invoked + int lag else Timestamp logMsg)"
    by (simp add: Write_pt_def Write_tm_def now_def)
  show ?thesis
    using Write_below_mark [OF free pt_ok, of w] Write_buffered_ack [OF free pt_ok _ room, of d]
      Write_timed_out [OF free pt_ok _ room, of d] Write_served [OF free pt_ok _ room]
    by (simp add: stamp)
qed

text \<open>
  The theorem on a message stamped 02:39:50, written by a call made at 02:39:59 that
  reads the clock one second later. At a store that buffers one point, the point
  appended has the time 02:40:00 for dialect RFC3164 and 02:39:50 for RFC5424. At a
  store that buffers 19999 points the call reaches the mark: it takes an
  acknowledgement that is already buffered, or times out after 60 seconds, or is
  served by the worker, and its point is the 20000th each time.
\<close>

theorem Write_timestamp_witness:
  "\<not> mut (demo_store [demo_pt])
   \<and> flushNow (demo_store [demo_pt]) < 10
   \<and> length (points (demo_store [demo_pt])) + 1 < 20000
   \<and> Timestamp (demo_msg RFC3164) = 63635596790000000000
   \<and> Write (recording_env None []) (63635596799000000000 + int 1000000000) Flushed
        (demo_msg RFC3164) (demo_store [demo_pt]) =
      Done (None, demo_store
        [demo_pt, Write_pt (recording_env None []) 63635596800000000000 (demo_msg RFC3164)])
   \<and> pt_time (Write_pt (recording_env None []) 63635596800000000000 (demo_msg RFC3164)) =
        63635596800000000000
   \<and> Write (recording_env None []) (63635596799000000000 + int 1000000000) Flushed
        (demo_msg RFC5424) (demo_store [demo_pt]) =
      Done (None, demo_store
        [demo_pt, Write_pt (recording_env None []) 63635596800000000000 (demo_msg RFC5424)])
   \<and> pt_time (Write_pt (recording_env None []) 63635596800000000000 (demo_msg RFC5424)) =
        63635596790000000000
   \<and> 20000 \<le> length (points (demo_store (replicate 19999 demo_pt))) + 1
   \<and> Write (recording_env None []) (63635596799000000000 + int 1000000000) (Waited 0)
        (demo_msg RFC3164) ((demo_store (replicate 19999 demo_pt))\<lparr>flushed := 1\<rparr>) =
      Done (None, (demo_store (replicate 19999 demo_pt @
          [Write_pt (recording_env None []) 63635596800000000000 (demo_msg RFC3164)]))
        \<lparr>flushNow := 1\<rparr>)
   \<and> Write (recording_env None []) (63635596799000000000 + int 1000000000)
        (Waited (60 * Second)) (demo_msg RFC3164) (demo_store (replicate 19999 demo_pt)) =
      Done (Some (ErrorString ''timed out flushing logs''),
        (demo_store (replicate 19999 demo_pt @
          [Write_pt (recording_env None []) 63635596800000000000 (demo_msg RFC3164)]))
        \<lparr>flushNow := 1\<rparr>)
   \<and> Write (recording_env None []) (63635596799000000000 + int 1000000000) Flushed
        (demo_msg RFC3164) (demo_store (replicate 19999 demo_pt)) =
      Done (None, (demo_store [])
        \<lparr>con := [WriteCall (demo_bp (replicate 19999 demo_pt @
            [Write_pt (recording_env None []) 63635596800000000000 (demo_msg RFC3164)]))]\<rparr>)"
  using Write_timestamp [where invoked = 63635596799000000000 and lag = 1000000000
      and env = "recording_env None []" and logMsg = "demo_msg RFC3164"
      and i = "demo_store [demo_pt]" and w = Flushed]
    Write_timestamp [where invoked = 63635596799000000000 and lag = 1000000000
      and env = "recording_env None []" and logMsg = "demo_msg RFC5424"
      and i = "demo_store [demo_pt]" and w = Flushed]
    Write_timestamp [where invoked = 63635596799000000000 and lag = 1000000000
      and env = "recording_env None []" and logMsg = "demo_msg RFC3164"
      and i = "(demo_store (replicate 19999 demo_pt))\<lparr>flushed := 1\<rparr>" and d = 0]
    Write_timestamp [where invoked = 63635596799000000000 and lag = 1000000000
      and env = "recording_env None []" and logMsg = "demo_msg RFC3164"
      and i = "demo_store (replicate 19999 demo_pt)" and d = "60 * Second"]
  by (simp add: demo_defs)

subsection \<open>Rotate\<close>

text \<open>
  C9. \<^verbatim>\<open>Rotate\<close> returns nil for every argument and leaves every field of the
  datastore as it was.
\<close>

theorem Rotate_noop: "Rotate olderThan i = (None, i)"
  by (simp add: Rotate_def)

subsection \<open>A write that times out\<close>



subsection \<open>The query\<close>

text \<open>
  C6. For parameters with a \<^verbatim>\<open>BinaryName\<close> that is not empty, the query is
  \<^verbatim>\<open>select time,severity,message from\<close> and the name, and then: nothing when no filter
  is set; otherwise \<^verbatim>\<open>where\<close> and the conditions, joined by \<^verbatim>\<open>and\<close>. There is one time
  bound at most: \<^verbatim>\<open>time >=\<close> the start in nanoseconds when \<^verbatim>\<open>StartDate\<close> is set,
  otherwise \<^verbatim>\<open>time <=\<close> the end in nanoseconds when \<^verbatim>\<open>EndDate\<close> is set; a date that is
  the zero time adds no bound. A \<^verbatim>\<open>Hostname\<close> that is not empty adds the condition
  \<^verbatim>\<open>hostname='...'\<close>.
\<close>

theorem prepareQuery_shape:
  assumes named: "QueryParams.BinaryName (params i) \<noteq> []"
  shows "prepareQuery i =
     Inr (''select time,severity,message from '' @ QueryParams.BinaryName (params i) @
       (if StartDate (params i) \<noteq> zero_Time then
          '' where time >= '' @ Sprintf_d (UnixNano (StartDate (params i))) @
          (if QueryParams.Hostname (params i) \<noteq> [] then
             '' and hostname='' @ [quote] @ QueryParams.Hostname (params i) @ [quote]
           else [])
        else if EndDate (params i) \<noteq> zero_Time then
          '' where time <= '' @ Sprintf_d (UnixNano (EndDate (params i))) @
          (if QueryParams.Hostname (params i) \<noteq> [] then
             '' and hostname='' @ [quote] @ QueryParams.Hostname (params i) @ [quote]
           else [])
        else if QueryParams.Hostname (params i) \<noteq> [] then
          '' where hostname='' @ [quote] @ QueryParams.Hostname (params i) @ [quote]
        else []))"
  using named by (simp add: prepareQuery_def Let_def)

lemma demo_start: "Sprintf_d (UnixNano 63635596800000000000) = ''1500000000000000000''"
  by code_simp

lemma demo_end: "Sprintf_d (UnixNano 63635596800000000001) = ''1500000000000000001''"
  by code_simp

text \<open>
  The theorem on three sets of parameters: both dates and a host (the start bound
  only, and the host), an end date alone, and no filter.
\<close>

theorem prepareQuery_shape_witness:
  "QueryParams.BinaryName (params (ResultReader
      (demo_params ''app'' ''h1'' 63635596800000000000 63635596800000000001))) \<noteq> []
   \<and> prepareQuery (ResultReader
        (demo_params ''app'' ''h1'' 63635596800000000000 63635596800000000001)) =
      Inr (''select time,severity,message from app where time >= 1500000000000000000 and hostname=''
            @ [CHR 0x27] @ ''h1'' @ [CHR 0x27])
   \<and> prepareQuery (ResultReader (demo_params ''app'' [] zero_Time 63635596800000000001)) =
      Inr ''select time,severity,message from app where time <= 1500000000000000001''
   \<and> prepareQuery (ResultReader (demo_params ''app'' [] zero_Time zero_Time)) =
      Inr ''select time,severity,message from app''"
  using prepareQuery_shape [of "ResultReader
      (demo_params ''app'' ''h1'' 63635596800000000000 63635596800000000001)"]
    prepareQuery_shape [of "ResultReader (demo_params ''app'' [] zero_Time 63635596800000000001)"]
    prepareQuery_shape [of "ResultReader (demo_params ''app'' [] zero_Time zero_Time)"]
  by (simp add: ResultReader_def demo_params_def demo_start demo_end zero_Time_def quote_def)

subsection \<open>The reader\<close>

lemma flush_body_cfg: "cfg (snd (flush_body env ds)) = cfg ds"
  by (simp add: flush_body_def split: option.split prod.split)

lemma flush_body_env:
  "flush_body (env\<lparr>QueryAsChunk := qf, NextResponse := nf\<rparr>) ds = flush_body env ds"
  by (simp add: flush_body_def split: option.split prod.split)

lemma ReadNext_query_free:
  assumes free: "\<not> mut ds"
  shows "ReadNext_query env i ds =
    (case prepareQuery i of
       Inl err \<Rightarrow> Done (Inl (Wrap err ''preparing query''), snd (flush_body env ds))
     | Inr query \<Rightarrow>
         (case QueryAsChunk env
                 \<lparr>q_Command = query, q_Database = Database (cfg ds), q_Precision = ''ns'',
                  q_ChunkSize = 20000\<rparr> (con (snd (flush_body env ds))) of
            (Inl err, c) \<Rightarrow>
              Done (Inl (Wrap err ''executing query''), (snd (flush_body env ds))\<lparr>con := c\<rparr>)
          | (Inr resp, c) \<Rightarrow> Done (Inr resp, (snd (flush_body env ds))\<lparr>con := c\<rparr>)))"
proof -
  obtain ferr ds1 where fb: "flush_body env ds = (ferr, ds1)"
    by (cases "flush_body env ds")
  then have "cfg ds1 = cfg ds"
    using flush_body_cfg [of env ds] by simp
  then show ?thesis
    by (simp add: ReadNext_query_def flush_free [OF free] and_then_def fb Let_def
          split: sum.split prod.split)
qed

lemma ReadNext_unnamed:
  assumes fresh: "result i = None"
    and unnamed: "QueryParams.BinaryName (params i) = []"
    and free: "\<not> mut ds"
  shows "ReadNext env i ds =
           Done (Inl (Wrap (ErrorString ''missing application name'') ''preparing query''),
                 i, snd (flush_body env ds))"
proof -
  have q: "prepareQuery i = Inl (ErrorString ''missing application name'')"
    using unnamed by (simp add: prepareQuery_def)
  show ?thesis
    using fresh by (simp add: ReadNext_def ReadNext_query_free [OF free] q and_then_def)
qed

text \<open>
  C7. On a reader that has no response yet and whose parameters have an empty
  \<^verbatim>\<open>BinaryName\<close>, \<^verbatim>\<open>ReadNext\<close> (once it holds the mutex for its flush) returns the error
  \<^verbatim>\<open>preparing query: missing application name\<close>. The reader is as before, and the
  datastore is what the forced flush left: no query is executed, for the outcome is
  the same whatever \<^verbatim>\<open>QueryAsChunk\<close> and \<^verbatim>\<open>NextResponse\<close> would do.
\<close>

theorem ReadNext_missing_application_name:
  assumes fresh: "result i = None"
    and unnamed: "QueryParams.BinaryName (params i) = []"
    and free: "\<not> mut ds"
  shows "ReadNext env i ds =
           Done (Inl (Wrap (ErrorString ''missing application name'') ''preparing query''),
                 i, snd (flush_body env ds))
       \<and> err_Error (Wrap (ErrorString ''missing application name'') ''preparing query'') =
           ''preparing query: '' @ ''missing application name''
       \<and> ReadNext (env\<lparr>QueryAsChunk := qf, NextResponse := nf\<rparr>) i ds = ReadNext env i ds"
  by (simp add: ReadNext_unnamed [OF fresh unnamed free] flush_body_env)

text \<open>
  The theorem on a reader made by \<^verbatim>\<open>ResultReader\<close>, at a store that buffers one point:
  the flush submits the point, and the connection sees no query.
\<close>

theorem ReadNext_missing_application_name_witness:
  "result (ResultReader (demo_params [] ''h1'' zero_Time zero_Time)
            :: Response list influxDBReader) = None
   \<and> QueryParams.BinaryName (params (ResultReader (demo_params [] ''h1'' zero_Time zero_Time)
            :: Response list influxDBReader)) = []
   \<and> \<not> mut (demo_store [demo_pt])
   \<and> ReadNext (recording_env None [demo_chunk [''started'']])
        (ResultReader (demo_params [] ''h1'' zero_Time zero_Time)) (demo_store [demo_pt]) =
      Done (Inl (Wrap (ErrorString ''missing application name'') ''preparing query''),
            ResultReader (demo_params [] ''h1'' zero_Time zero_Time),
            (demo_store [])\<lparr>con := [WriteCall (demo_bp [demo_pt])]\<rparr>)"
  using ReadNext_missing_application_name
      [of "ResultReader (demo_params [] ''h1'' zero_Time zero_Time)"
        "demo_store [demo_pt]" "recording_env None [demo_chunk [''started'']]"]
  by (simp add: demo_defs ResultReader_def demo_params_def flush_body_def)

lemma those_append:
  "List.those (xs @ ys) =
     (case List.those xs of
        None \<Rightarrow> None
      | Some a \<Rightarrow> (case List.those ys of None \<Rightarrow> None | Some b \<Rightarrow> Some (a @ b)))"
  by (induction xs) (auto split: option.split)

lemma read_Values_records:
  "List.those (map row_record vals) = Some recs \<Longrightarrow>
     read_Values vals buf = Done (buf @ concat (map as_line recs))"
proof (induction vals arbitrary: buf recs)
  case Nil
  then show ?case by simp
next
  case (Cons val vals)
  then obtain s rest where s: "row_record val = Some s"
    and rest: "List.those (map row_record vals) = Some rest" and recs: "recs = s # rest"
    by (auto split: option.splits)
  from s have "2 < length val" and "val ! 2 = VString s"
    by (auto simp: row_record_def split: if_splits ival.splits)
  then show ?case
    using Cons.IH [OF rest] recs by (simp add: as_line_def)
qed

lemma read_Values_no_record:
  "List.those (map row_record vals) = None \<Longrightarrow> \<exists>m. read_Values vals buf = Fatal m"
proof (induction vals arbitrary: buf)
  case Nil
  then show ?case by simp
next
  case (Cons val vals)
  show ?case
  proof (cases "row_record val")
    case None
    then show ?thesis
      by (auto simp: row_record_def split: if_splits ival.splits)
  next
    case (Some s)
    then have v: "2 < length val" "val ! 2 = VString s"
      by (auto simp: row_record_def split: if_splits ival.splits)
    from Some Cons.prems have "List.those (map row_record vals) = None"
      by (auto split: option.splits)
    from Cons.IH [OF this] show ?thesis using v by simp
  qed
qed

lemma read_Series_records:
  "List.those (map row_record (concat (map Values series))) = Some recs \<Longrightarrow>
     read_Series series buf = Done (buf @ concat (map as_line recs))"
proof (induction series arbitrary: buf recs)
  case Nil
  then show ?case by simp
next
  case (Cons serie series)
  then obtain a b where a: "List.those (map row_record (Values serie)) = Some a"
    and b: "List.those (map row_record (concat (map Values series))) = Some b"
    and recs: "recs = a @ b"
    by (auto simp: those_append split: option.splits)
  show ?case
    using read_Values_records [OF a] Cons.IH [OF b] recs by simp
qed

lemma read_Series_no_record:
  "List.those (map row_record (concat (map Values series))) = None \<Longrightarrow>
     \<exists>m. read_Series series buf = Fatal m"
proof (induction series arbitrary: buf)
  case Nil
  then show ?case by simp
next
  case (Cons serie series)
  show ?case
  proof (cases "List.those (map row_record (Values serie))")
    case None
    from read_Values_no_record [OF this, of buf] show ?thesis by auto
  next
    case (Some a)
    with Cons.prems have "List.those (map row_record (concat (map Values series))) = None"
      by (auto simp: those_append split: option.splits)
    from Cons.IH [OF this] show ?thesis
      using read_Values_records [OF Some] by simp
  qed
qed

lemma read_Results_records:
  "List.those (map row_record (concat (map (\<lambda>r. concat (map Values (Series r))) ress))) = Some recs
     \<Longrightarrow> read_Results ress buf = Done (buf @ concat (map as_line recs))"
proof (induction ress arbitrary: buf recs)
  case Nil
  then show ?case by simp
next
  case (Cons res ress)
  then obtain a b where a: "List.those (map row_record (concat (map Values (Series res)))) = Some a"
    and b: "List.those (map row_record (concat (map (\<lambda>r. concat (map Values (Series r))) ress))) = Some b"
    and recs: "recs = a @ b"
    by (auto simp: those_append split: option.splits)
  show ?case
    using read_Series_records [OF a] Cons.IH [OF b] recs by simp
qed

lemma read_Results_no_record:
  "List.those (map row_record (concat (map (\<lambda>r. concat (map Values (Series r))) ress))) = None
     \<Longrightarrow> \<exists>m. read_Results ress buf = Fatal m"
proof (induction ress arbitrary: buf)
  case Nil
  then show ?case by simp
next
  case (Cons res ress)
  show ?case
  proof (cases "List.those (map row_record (concat (map Values (Series res))))")
    case None
    from read_Series_no_record [OF this, of buf] show ?thesis by auto
  next
    case (Some a)
    with Cons.prems
    have "List.those (map row_record (concat (map (\<lambda>r. concat (map Values (Series r))) ress))) = None"
      by (auto simp: those_append split: option.splits)
    from Cons.IH [OF this] show ?thesis
      using read_Series_records [OF Some] by simp
  qed
qed

lemma as_line_nonempty:
  "message \<noteq> [] \<Longrightarrow>
     last (as_line message) = newline
     \<and> (as_line message = message \<or> as_line message = message @ [newline])"
  by (simp add: as_line_def)

text \<open>
  C8, as the code has it. On a reader with no response yet, \<^verbatim>\<open>ReadNext\<close> flushes the
  buffer (dropping the result of the flush), builds the query and executes it once on
  the connection the flush left; an error of the execution is returned wrapped, and
  otherwise the call goes on as a call on the reader that holds the response. On a
  reader that holds a response, \<^verbatim>\<open>ReadNext\<close> neither flushes nor queries, and leaves
  the datastore alone: at the end of the chunks it returns \<^verbatim>\<open>io.EOF\<close> itself; any
  other error of the response it returns wrapped, which is not \<^verbatim>\<open>io.EOF\<close>; a chunk
  whose rows all have a record it returns as the records in order, each as one line;
  and it panics on a row that has no record. A record that is not empty ends with a
  newline in its line, added if it was missing; an empty record adds nothing to the
  chunk, where the claim has a newline added to every record that lacks one.
\<close>

theorem ReadNext_chunks:
  "(result i = None \<and> \<not> mut ds \<and> prepareQuery i = Inr query
      \<and> QueryAsChunk env
           \<lparr>q_Command = query, q_Database = Database (cfg ds), q_Precision = ''ns'',
            q_ChunkSize = 20000\<rparr> (con (snd (flush_body env ds))) = (Inl err, c) \<longrightarrow>
        ReadNext env i ds =
          Done (Inl (Wrap err ''executing query''), i, (snd (flush_body env ds))\<lparr>con := c\<rparr>))
   \<and> (result i = None \<and> \<not> mut ds \<and> prepareQuery i = Inr query
      \<and> QueryAsChunk env
           \<lparr>q_Command = query, q_Database = Database (cfg ds), q_Precision = ''ns'',
            q_ChunkSize = 20000\<rparr> (con (snd (flush_body env ds))) = (Inr resp, c) \<longrightarrow>
        ReadNext env i ds =
          ReadNext env (i\<lparr>result := Some resp\<rparr>) ((snd (flush_body env ds))\<lparr>con := c\<rparr>))
   \<and> (result i = Some r \<and> NextResponse env r = (Inl EOF, r1) \<longrightarrow>
        ReadNext env i ds = Done (Inl EOF, i\<lparr>result := Some r1\<rparr>, ds))
   \<and> (result i = Some r \<and> NextResponse env r = (Inl err, r1) \<and> err \<noteq> EOF \<longrightarrow>
        ReadNext env i ds = Done (Inl (Wrap err ''reading results''), i\<lparr>result := Some r1\<rparr>, ds)
        \<and> Wrap err ''reading results'' \<noteq> EOF)
   \<and> (result i = Some r \<and> NextResponse env r = (Inr res, r1)
      \<and> Response_records res = Some records \<longrightarrow>
        ReadNext env i ds =
          Done (Inr (concat (map as_line records)), i\<lparr>result := Some r1\<rparr>, ds))
   \<and> (result i = Some r \<and> NextResponse env r = (Inr res, r1)
      \<and> Response_records res = None \<longrightarrow>
        (\<exists>m. ReadNext env i ds = Fatal m))
   \<and> as_line [] = []
   \<and> (message \<noteq> [] \<longrightarrow>
        last (as_line message) = newline
        \<and> (as_line message = message \<or> as_line message = message @ [newline]))"
proof -
  have refused_query: "ReadNext env i ds =
          Done (Inl (Wrap err ''executing query''), i, (snd (flush_body env ds))\<lparr>con := c\<rparr>)"
    if "result i = None" and free: "\<not> mut ds" and "prepareQuery i = Inr query"
      and "QueryAsChunk env
           \<lparr>q_Command = query, q_Database = Database (cfg ds), q_Precision = ''ns'',
            q_ChunkSize = 20000\<rparr> (con (snd (flush_body env ds))) = (Inl err, c)"
    using that by (simp add: ReadNext_def ReadNext_query_free [OF free] and_then_def)
  have first: "ReadNext env i ds =
          ReadNext env (i\<lparr>result := Some resp\<rparr>) ((snd (flush_body env ds))\<lparr>con := c\<rparr>)"
    if "result i = None" and free: "\<not> mut ds" and "prepareQuery i = Inr query"
      and "QueryAsChunk env
           \<lparr>q_Command = query, q_Database = Database (cfg ds), q_Precision = ''ns'',
            q_ChunkSize = 20000\<rparr> (con (snd (flush_body env ds))) = (Inr resp, c)"
    using that
    by (simp add: ReadNext_def ReadNext_query_free [OF free] and_then_def
          split: prod.split sum.split exec.split)
  have eof: "ReadNext env i ds = Done (Inl EOF, i\<lparr>result := Some r1\<rparr>, ds)"
    if "result i = Some r" and "NextResponse env r = (Inl EOF, r1)"
    using that by (simp add: ReadNext_def and_then_def)
  have other: "ReadNext env i ds =
        Done (Inl (Wrap err ''reading results''), i\<lparr>result := Some r1\<rparr>, ds)"
    if "result i = Some r" and "NextResponse env r = (Inl err, r1)" and "err \<noteq> EOF"
    using that by (simp add: ReadNext_def and_then_def)
  have chunk: "ReadNext env i ds =
          Done (Inr (concat (map as_line records)), i\<lparr>result := Some r1\<rparr>, ds)"
    if "result i = Some r" and "NextResponse env r = (Inr res, r1)"
      and recs: "Response_records res = Some records"
  proof -
    have "read_Results (Results res) [] = Done (concat (map as_line records))"
      using read_Results_records [of "Results res" records "[]"] recs
      by (simp add: Response_records_def Response_rows_def)
    then show ?thesis
      using that by (simp add: ReadNext_def and_then_def)
  qed
  have panic: "\<exists>m. ReadNext env i ds = Fatal m"
    if "result i = Some r" and "NextResponse env r = (Inr res, r1)"
      and none: "Response_records res = None"
  proof -
    obtain m where "read_Results (Results res) [] = Fatal m"
      using read_Results_no_record [of "Results res" "[]"] none
      by (auto simp: Response_records_def Response_rows_def)
    then show ?thesis
      using that by (simp add: ReadNext_def and_then_def)
  qed
  have empty: "as_line [] = []"
    by (simp add: as_line_def)
  show ?thesis
    using refused_query first eof other chunk panic empty as_line_nonempty [of message]
    by (intro conjI impI) (simp_all del: not_None_eq)
qed

text \<open>
  The theorem on a run of two calls, at a store that buffers one point, on a backend
  whose answer to the query is one chunk of two records: the first call flushes,
  queries once and returns the two lines; the second returns \<^verbatim>\<open>io.EOF\<close> and the
  connection has seen nothing more.
\<close>

theorem ReadNext_chunks_witness:
  "result (ResultReader (demo_params ''app'' [] zero_Time zero_Time) :: Response list influxDBReader) = None
   \<and> \<not> mut (demo_store [demo_pt])
   \<and> prepareQuery (ResultReader (demo_params ''app'' [] zero_Time zero_Time) :: Response list influxDBReader) =
       Inr ''select time,severity,message from app''
   \<and> Response_records (demo_chunk [''started'', ''stopped'' @ [newline]]) =
       Some [''started'', ''stopped'' @ [newline]]
   \<and> ReadNext (recording_env None [demo_chunk [''started'', ''stopped'' @ [newline]]])
        (ResultReader (demo_params ''app'' [] zero_Time zero_Time)) (demo_store [demo_pt]) =
      Done (Inr (''started'' @ [newline] @ ''stopped'' @ [newline]),
            \<lparr>params = demo_params ''app'' [] zero_Time zero_Time, result = Some [],
             rd_done = False\<rparr>,
            (demo_store [])
              \<lparr>con := [WriteCall (demo_bp [demo_pt]),
                       QueryCall \<lparr>q_Command = ''select time,severity,message from app'',
                         q_Database = ''coriolis'', q_Precision = ''ns'', q_ChunkSize = 20000\<rparr>]\<rparr>)
   \<and> ReadNext (recording_env None [demo_chunk [''started'', ''stopped'' @ [newline]]])
        \<lparr>params = demo_params ''app'' [] zero_Time zero_Time, result = Some [],
         rd_done = False\<rparr>
        ((demo_store [])
              \<lparr>con := [WriteCall (demo_bp [demo_pt]),
                       QueryCall \<lparr>q_Command = ''select time,severity,message from app'',
                         q_Database = ''coriolis'', q_Precision = ''ns'', q_ChunkSize = 20000\<rparr>]\<rparr>) =
      Done (Inl EOF,
            \<lparr>params = demo_params ''app'' [] zero_Time zero_Time, result = Some [],
             rd_done = False\<rparr>,
            (demo_store [])
              \<lparr>con := [WriteCall (demo_bp [demo_pt]),
                       QueryCall \<lparr>q_Command = ''select time,severity,message from app'',
                         q_Database = ''coriolis'', q_Precision = ''ns'', q_ChunkSize = 20000\<rparr>]\<rparr>)"
  using ReadNext_chunks [where i = "ResultReader (demo_params ''app'' [] zero_Time zero_Time)"
      and ds = "demo_store [demo_pt]"
      and env = "recording_env None [demo_chunk [''started'', ''stopped'' @ [newline]]]"
      and query = "''select time,severity,message from app''"
      and resp = "[demo_chunk [''started'', ''stopped'' @ [newline]]]"
      and c = "[WriteCall (demo_bp [demo_pt]),
                       QueryCall \<lparr>q_Command = ''select time,severity,message from app'',
                         q_Database = ''coriolis'', q_Precision = ''ns'', q_ChunkSize = 20000\<rparr>]"]
    ReadNext_chunks [where i = "\<lparr>params = demo_params ''app'' [] zero_Time zero_Time,
         result = Some [demo_chunk [''started'', ''stopped'' @ [newline]]], rd_done = False\<rparr>"
      and ds = "(demo_store [])
              \<lparr>con := [WriteCall (demo_bp [demo_pt]),
                       QueryCall \<lparr>q_Command = ''select time,severity,message from app'',
                         q_Database = ''coriolis'', q_Precision = ''ns'', q_ChunkSize = 20000\<rparr>]\<rparr>"
      and env = "recording_env None [demo_chunk [''started'', ''stopped'' @ [newline]]]"
      and r = "[demo_chunk [''started'', ''stopped'' @ [newline]]]"
      and ?r1.0 = "[]"
      and res = "demo_chunk [''started'', ''stopped'' @ [newline]]"
      and records = "[''started'', ''stopped'' @ [newline]]"]
    ReadNext_chunks [where i = "\<lparr>params = demo_params ''app'' [] zero_Time zero_Time,
         result = Some [], rd_done = False\<rparr>"
      and ds = "(demo_store [])
              \<lparr>con := [WriteCall (demo_bp [demo_pt]),
                       QueryCall \<lparr>q_Command = ''select time,severity,message from app'',
                         q_Database = ''coriolis'', q_Precision = ''ns'', q_ChunkSize = 20000\<rparr>]\<rparr>"
      and env = "recording_env None [demo_chunk [''started'', ''stopped'' @ [newline]]]"
      and r = "[]"
      and ?r1.0 = "[]"]
  by (simp add: demo_defs ResultReader_def demo_params_def demo_chunk_def demo_row_def
        zero_Time_def prepareQuery_def Let_def flush_body_def Response_records_def
        Response_rows_def row_record_def as_line_def newline_def)

lemmas reader_defs = ReadNext_def ReadNext_query_def prepareQuery_def ResultReader_def
  demo_params_def demo_chunk_def demo_row_def zero_Time_def newline_def Let_def

text \<open>
  The claim fails on a chunk of the three records \<^verbatim>\<open>a\<close>, the empty record and \<^verbatim>\<open>b\<close>:
  the chunk returned is two lines, and the empty record has no newline.
\<close>

theorem ReadNext_empty_record_counterexample:
  "ReadNext (recording_env None [demo_chunk [''a'', [], ''b'']])
      (ResultReader (demo_params ''app'' [] zero_Time zero_Time)) (demo_store []) =
     Done (Inr (''a'' @ [newline] @ ''b'' @ [newline]),
           \<lparr>params = demo_params ''app'' [] zero_Time zero_Time, result = Some [],
            rd_done = False\<rparr>,
           (demo_store [])
             \<lparr>con := [QueryCall \<lparr>q_Command = ''select time,severity,message from app'',
                        q_Database = ''coriolis'', q_Precision = ''ns'', q_ChunkSize = 20000\<rparr>]\<rparr>)"
  by (simp add: demo_defs reader_defs step_defs)

end
